theory Spec2Isabelle
  imports Main
begin

section \<open>Values, requests and responses\<close>

text \<open>
  The script \<^verbatim>\<open>scripts/setup_n8n_workflows.py\<close> builds four workflow definitions as
  Python dict literals, sends them to an n8n server with the \<^verbatim>\<open>requests\<close> library and
  reads JSON answers back. A Python value that is JSON data is a \<open>json\<close>: \<open>JNull\<close> is
  \<^verbatim>\<open>None\<close>, a dict is the list of its items in insertion order, a number is an integer
  (every number the script writes is one).
\<close>

datatype json =
    JNull
  | JBool bool
  | JInt int
  | JStr string
  | JArr "json list"
  | JObj "(string \<times> json) list"

text \<open>The exceptions that can leave a function of the script.\<close>

datatype exn =
    RequestException
  | JSONDecodeError
  | KeyError
  | TypeError

text \<open>\<^verbatim>\<open>x[k]\<close> for a string key \<open>k\<close>: only a dict accepts it, and only for a key it holds.\<close>

fun subscript :: "json \<Rightarrow> string \<Rightarrow> exn + json" where
  "subscript (JObj items) k = (case map_of items k of None \<Rightarrow> Inl KeyError | Some v \<Rightarrow> Inr v)"
| "subscript JNull k = Inl TypeError"
| "subscript (JBool b) k = Inl TypeError"
| "subscript (JInt i) k = Inl TypeError"
| "subscript (JStr s) k = Inl TypeError"
| "subscript (JArr xs) k = Inl TypeError"

text \<open>
  What a \<^verbatim>\<open>for\<close> clause draws from a value: the elements of a list, the keys of a dict,
  the one-character strings of a string; anything else is not iterable.
\<close>

fun iterate :: "json \<Rightarrow> exn + json list" where
  "iterate (JArr xs) = Inr xs"
| "iterate (JObj items) = Inr (map (\<lambda>kv. JStr (fst kv)) items)"
| "iterate (JStr s) = Inr (map (\<lambda>c. JStr [c]) s)"
| "iterate JNull = Inl TypeError"
| "iterate (JBool b) = Inl TypeError"
| "iterate (JInt i) = Inl TypeError"

text \<open>The truth value of a Python object in an \<^verbatim>\<open>if\<close>.\<close>

fun truthy :: "json \<Rightarrow> bool" where
  "truthy JNull = False"
| "truthy (JBool b) = b"
| "truthy (JInt i) = (i \<noteq> 0)"
| "truthy (JStr s) = (s \<noteq> [])"
| "truthy (JArr xs) = (xs \<noteq> [])"
| "truthy (JObj items) = (items \<noteq> [])"

datatype http_method = GET | POST

text \<open>
  A call of \<^verbatim>\<open>requests.get\<close> or \<^verbatim>\<open>requests.post\<close> with the keyword arguments the script
  passes: \<^verbatim>\<open>headers=\<close>, \<^verbatim>\<open>auth=\<close> and, for a POST, \<^verbatim>\<open>json=\<close>.
\<close>

record request =
  req_method :: http_method
  req_url :: string
  req_headers :: "(string \<times> string) list"
  req_auth :: "(string \<times> string) option"
  req_json :: "json option"

text \<open>
  What the script reads of a \<^verbatim>\<open>requests.Response\<close>: \<^verbatim>\<open>status_code\<close>, \<^verbatim>\<open>text\<close> and the
  result of \<^verbatim>\<open>json()\<close>, which is \<open>None\<close> when the body does not parse and the call raises.
\<close>

record response =
  status_code :: int
  response_text :: string
  json_body :: "json option"

definition response_json :: "response \<Rightarrow> exn + json" where
  "response_json r = (case json_body r of None \<Rightarrow> Inl JSONDecodeError | Some j \<Rightarrow> Inr j)"

text \<open>
  The remote service answers a request from its state \<open>'s\<close> with a response or with a
  transport failure (an exception raised inside \<^verbatim>\<open>requests\<close>), and moves to a new state.
\<close>

type_synonym 's service = "'s \<Rightarrow> request \<Rightarrow> (exn + response) \<times> 's"

text \<open>
  One piece of an f-string: literal or \<^verbatim>\<open>str\<close>-valued text, or an interpolated value
  formatted by Python. A printed line is the list of its pieces.
\<close>

datatype piece = Txt string | Val json

text \<open>
  Everything outside the process that a run touches: the service's state, the requests
  issued so far, and the lines written to standard output.
\<close>

record 's world =
  remote :: 's
  sent :: "request list"
  stdout :: "piece list list"

definition print :: "piece list \<Rightarrow> 's world \<Rightarrow> 's world" where
  "print line w = w\<lparr>stdout := stdout w @ [line]\<rparr>"

definition perform :: "'s service \<Rightarrow> request \<Rightarrow> 's world \<Rightarrow> (exn + response) \<times> 's world" where
  "perform srv rq w =
     (case srv (remote w) rq of (res, s') \<Rightarrow> (res, w\<lparr>remote := s', sent := sent w @ [rq]\<rparr>))"

definition requests_get ::
  "'s service \<Rightarrow> string \<Rightarrow> (string \<times> string) list \<Rightarrow> (string \<times> string) option \<Rightarrow>
   's world \<Rightarrow> (exn + response) \<times> 's world" where
  "requests_get srv u hs a =
     perform srv \<lparr>req_method = GET, req_url = u, req_headers = hs, req_auth = a, req_json = None\<rparr>"

definition requests_post ::
  "'s service \<Rightarrow> string \<Rightarrow> json \<Rightarrow> (string \<times> string) list \<Rightarrow> (string \<times> string) option \<Rightarrow>
   's world \<Rightarrow> (exn + response) \<times> 's world" where
  "requests_post srv u j hs a =
     perform srv \<lparr>req_method = POST, req_url = u, req_headers = hs, req_auth = a, req_json = Some j\<rparr>"

section \<open>The class \<^verbatim>\<open>N8NWorkflowSetup\<close>\<close>

record N8NWorkflowSetup =
  base_url :: string
  auth :: "(string \<times> string) option"
  headers :: "(string \<times> string) list"

text \<open>\<^verbatim>\<open>os.getenv(key, default)\<close> over the environment as it is after \<^verbatim>\<open>load_dotenv\<close>.\<close>

definition getenv :: "(string \<rightharpoonup> string) \<Rightarrow> string \<Rightarrow> string \<Rightarrow> string" where
  "getenv env k d = (case env k of None \<Rightarrow> d | Some v \<Rightarrow> v)"

text \<open>
  \<^verbatim>\<open>__init__\<close>. The test \<^verbatim>\<open>if os.getenv('N8N_API_KEY')\<close> holds for a value that is present
  and not the empty string; \<^verbatim>\<open>if username and password\<close> needs both non-empty.
\<close>

definition init :: "(string \<rightharpoonup> string) \<Rightarrow> N8NWorkflowSetup" where
  "init env =
     (let url = ''http://'' @ getenv env ''N8N_HOST'' ''localhost'' @ '':'' @ getenv env ''N8N_PORT'' ''5678''
      in case env ''N8N_API_KEY'' of
           Some (c # cs) \<Rightarrow>
             \<lparr>base_url = url, auth = None,
              headers = [(''X-N8N-API-KEY'', c # cs), (''Content-Type'', ''application/json'')]\<rparr>
         | _ \<Rightarrow>
             (let username = getenv env ''N8N_BASIC_AUTH_USER'' '''';
                  password = getenv env ''N8N_BASIC_AUTH_PASSWORD'' ''''
              in \<lparr>base_url = url,
                  auth = (if username \<noteq> [] \<and> password \<noteq> [] then Some (username, password) else None),
                  headers = [(''Content-Type'', ''application/json'')]\<rparr>))"

definition create_workflow ::
  "N8NWorkflowSetup \<Rightarrow> 's service \<Rightarrow> json \<Rightarrow> 's world \<Rightarrow> (exn + json) \<times> 's world" where
  "create_workflow self srv workflow_data w =
     (case requests_post srv (base_url self @ ''/api/v1/workflows'') workflow_data
             (headers self) (auth self) w of
        (Inl e, w1) \<Rightarrow> (Inl e, w1)
      | (Inr response, w1) \<Rightarrow>
          if status_code response = 201 then
            (case response_json response of
               Inl e \<Rightarrow> (Inl e, w1)
             | Inr j \<Rightarrow>
                 (case subscript j ''data'' of
                    Inl e \<Rightarrow> (Inl e, w1)
                  | Inr d \<Rightarrow>
                      (case subscript d ''id'' of
                         Inl e \<Rightarrow> (Inl e, w1)
                       | Inr i \<Rightarrow> (Inr i, w1))))
          else
            (Inr JNull,
             print [Txt ''Failed to create workflow: '', Txt (response_text response)] w1))"

text \<open>
  \<^verbatim>\<open>any(w['name'] == name for w in workflows)\<close> over the items already drawn: the
  generator is consumed from the left, the first equal name ends it, and a subscript
  that fails before that raises.
\<close>

fun any_name :: "string \<Rightarrow> json list \<Rightarrow> exn + bool" where
  "any_name name [] = Inr False"
| "any_name name (w # ws) =
     (case subscript w ''name'' of
        Inl e \<Rightarrow> Inl e
      | Inr v \<Rightarrow> if v = JStr name then Inr True else any_name name ws)"

definition workflow_exists ::
  "N8NWorkflowSetup \<Rightarrow> 's service \<Rightarrow> string \<Rightarrow> 's world \<Rightarrow> (exn + bool) \<times> 's world" where
  "workflow_exists self srv name w =
     (case requests_get srv (base_url self @ ''/api/v1/workflows'') (headers self) (auth self) w of
        (Inl e, w1) \<Rightarrow> (Inl e, w1)
      | (Inr response, w1) \<Rightarrow>
          if status_code response = 200 then
            (case response_json response of
               Inl e \<Rightarrow> (Inl e, w1)
             | Inr j \<Rightarrow>
                 (case subscript j ''data'' of
                    Inl e \<Rightarrow> (Inl e, w1)
                  | Inr workflows \<Rightarrow>
                      (case iterate workflows of
                         Inl e \<Rightarrow> (Inl e, w1)
                       | Inr ws \<Rightarrow> (any_name name ws, w1))))
          else (Inr False, w1))"

section \<open>The four workflow definitions\<close>

definition send_notification_workflow :: "string \<Rightarrow> json" where
  \<open>send_notification_workflow workflow_name =
    JObj [
      (''name'', JStr workflow_name),
      (''active'', JBool True),
      (''nodes'', JArr [
        JObj [
          (''parameters'', JObj []),
          (''name'', JStr ''Start''),
          (''type'', JStr ''n8n-nodes-base.start''),
          (''typeVersion'', JInt 1),
          (''position'', JArr [JInt 250, JInt 300])],
        JObj [
          (''parameters'', JObj [
            (''conditions'', JObj [
              (''string'', JArr [
                JObj [
                  (''value1'', JStr ''={{$json["channel"]}}''),
                  (''operation'', JStr ''equals''),
                  (''value2'', JStr ''email'')]])])]),
          (''name'', JStr ''Route by Channel''),
          (''type'', JStr ''n8n-nodes-base.if''),
          (''typeVersion'', JInt 1),
          (''position'', JArr [JInt 450, JInt 300])],
        JObj [
          (''parameters'', JObj [
            (''resource'', JStr ''message''),
            (''operation'', JStr ''send''),
            (''from'', JStr ''=SHAAD Assistant <noreply@shaad.local>''),
            (''to'', JStr ''={{$json["recipient"]}}''),
            (''subject'', JStr ''={{$json["subject"]}}''),
            (''text'', JStr ''={{$json["message"]}}'')]),
          (''name'', JStr ''Send Email''),
          (''type'', JStr ''n8n-nodes-base.emailSend''),
          (''typeVersion'', JInt 1),
          (''position'', JArr [JInt 650, JInt 200])],
        JObj [
          (''parameters'', JObj [
            (''url'', JStr ''={{$json["webhook_url"]}}''),
            (''requestMethod'', JStr ''POST''),
            (''jsonParameters'', JBool True),
            (''options'', JObj []),
            (''bodyParametersJson'', JStr ''={{JSON.stringify($json)}}'')]),
          (''name'', JStr ''Send to Webhook''),
          (''type'', JStr ''n8n-nodes-base.httpRequest''),
          (''typeVersion'', JInt 1),
          (''position'', JArr [JInt 650, JInt 400])]]),
      (''connections'', JObj [
        (''Start'', JObj [
          (''main'', JArr [
            JArr [
              JObj [
                (''node'', JStr ''Route by Channel''),
                (''type'', JStr ''main''),
                (''index'', JInt 0)]]])]),
        (''Route by Channel'', JObj [
          (''main'', JArr [
            JArr [
              JObj [
                (''node'', JStr ''Send Email''),
                (''type'', JStr ''main''),
                (''index'', JInt 0)]],
            JArr [
              JObj [
                (''node'', JStr ''Send to Webhook''),
                (''type'', JStr ''main''),
                (''index'', JInt 0)]]])])])]\<close>

definition web_search_workflow :: "string \<Rightarrow> json" where
  \<open>web_search_workflow workflow_name =
    JObj [
      (''name'', JStr workflow_name),
      (''active'', JBool True),
      (''nodes'', JArr [
        JObj [
          (''parameters'', JObj []),
          (''name'', JStr ''Start''),
          (''type'', JStr ''n8n-nodes-base.start''),
          (''typeVersion'', JInt 1),
          (''position'', JArr [JInt 250, JInt 300])],
        JObj [
          (''parameters'', JObj [
            (''url'', JStr ''https://api.duckduckgo.com/''),
            (''requestMethod'', JStr ''GET''),
            (''queryParametersUi'', JObj [
              (''parameter'', JArr [
                JObj [
                  (''name'', JStr ''q''),
                  (''value'', JStr ''={{$json["query"]}}'')],
                JObj [
                  (''name'', JStr ''format''),
                  (''value'', JStr ''json'')],
                JObj [
                  (''name'', JStr ''no_html''),
                  (''value'', JStr ''1'')]])])]),
          (''name'', JStr ''Search DuckDuckGo''),
          (''type'', JStr ''n8n-nodes-base.httpRequest''),
          (''typeVersion'', JInt 1),
          (''position'', JArr [JInt 450, JInt 300])],
        JObj [
          (''parameters'', JObj [
            (''mode'', JStr ''runOnceForEachItem''),
            (''jsCode'', JStr (''// Format search results\<newline>const results = $input.item.json;\<newline>const formatted = {\<newline>  query: $node["Start"].json["query"],\<newline>  results: []\<newline>};\<newline>\<newline>if (results.RelatedTopics) {\<newline>  formatted.results = results.RelatedTopics.slice(0, 5).map(topic => ({\<newline>    title: topic.Text || '' @ [CHR 0x27, CHR 0x27] @ '',\<newline>    url: topic.FirstURL || '' @ [CHR 0x27, CHR 0x27] @ '',\<newline>    description: topic.Text || '' @ [CHR 0x27, CHR 0x27] @ ''\<newline>  }));\<newline>}\<newline>\<newline>return formatted;''))]),
          (''name'', JStr ''Format Results''),
          (''type'', JStr ''n8n-nodes-base.code''),
          (''typeVersion'', JInt 1),
          (''position'', JArr [JInt 650, JInt 300])]]),
      (''connections'', JObj [
        (''Start'', JObj [
          (''main'', JArr [
            JArr [
              JObj [
                (''node'', JStr ''Search DuckDuckGo''),
                (''type'', JStr ''main''),
                (''index'', JInt 0)]]])]),
        (''Search DuckDuckGo'', JObj [
          (''main'', JArr [
            JArr [
              JObj [
                (''node'', JStr ''Format Results''),
                (''type'', JStr ''main''),
                (''index'', JInt 0)]]])])])]\<close>

definition home_automation_workflow :: "string \<Rightarrow> json" where
  \<open>home_automation_workflow workflow_name =
    JObj [
      (''name'', JStr workflow_name),
      (''active'', JBool True),
      (''nodes'', JArr [
        JObj [
          (''parameters'', JObj []),
          (''name'', JStr ''Start''),
          (''type'', JStr ''n8n-nodes-base.start''),
          (''typeVersion'', JInt 1),
          (''position'', JArr [JInt 250, JInt 300])],
        JObj [
          (''parameters'', JObj [
            (''conditions'', JObj [
              (''string'', JArr [
                JObj [
                  (''value1'', JStr ''={{$json["device_type"]}}''),
                  (''operation'', JStr ''equals''),
                  (''value2'', JStr ''light'')]])])]),
          (''name'', JStr ''Device Router''),
          (''type'', JStr ''n8n-nodes-base.if''),
          (''typeVersion'', JInt 1),
          (''position'', JArr [JInt 450, JInt 300])],
        JObj [
          (''parameters'', JObj [
            (''url'', JStr ''={{$json["device_api_url"]}}''),
            (''requestMethod'', JStr ''POST''),
            (''jsonParameters'', JBool True),
            (''options'', JObj []),
            (''bodyParametersJson'', JStr ''={\<newline>  "action": "{{$json["action"]}}",\<newline>  "value": "{{$json["value"]}}"\<newline>}'')]),
          (''name'', JStr ''Control Device''),
          (''type'', JStr ''n8n-nodes-base.httpRequest''),
          (''typeVersion'', JInt 1),
          (''position'', JArr [JInt 650, JInt 300])],
        JObj [
          (''parameters'', JObj [
            (''mode'', JStr ''runOnceForEachItem''),
            (''jsCode'', JStr ''// Log action for future learning\<newline>const action = $input.item.json;\<newline>return {\<newline>  success: true,\<newline>  device: action.device_name,\<newline>  action: action.action,\<newline>  timestamp: new Date().toISOString()\<newline>};'')]),
          (''name'', JStr ''Log Action''),
          (''type'', JStr ''n8n-nodes-base.code''),
          (''typeVersion'', JInt 1),
          (''position'', JArr [JInt 850, JInt 300])]]),
      (''connections'', JObj [
        (''Start'', JObj [
          (''main'', JArr [
            JArr [
              JObj [
                (''node'', JStr ''Device Router''),
                (''type'', JStr ''main''),
                (''index'', JInt 0)]]])]),
        (''Device Router'', JObj [
          (''main'', JArr [
            JArr [
              JObj [
                (''node'', JStr ''Control Device''),
                (''type'', JStr ''main''),
                (''index'', JInt 0)]],
            JArr [
              JObj [
                (''node'', JStr ''Control Device''),
                (''type'', JStr ''main''),
                (''index'', JInt 0)]]])]),
        (''Control Device'', JObj [
          (''main'', JArr [
            JArr [
              JObj [
                (''node'', JStr ''Log Action''),
                (''type'', JStr ''main''),
                (''index'', JInt 0)]]])])])]\<close>

definition schedule_task_workflow :: "string \<Rightarrow> json" where
  \<open>schedule_task_workflow workflow_name =
    JObj [
      (''name'', JStr workflow_name),
      (''active'', JBool True),
      (''nodes'', JArr [
        JObj [
          (''parameters'', JObj []),
          (''name'', JStr ''Start''),
          (''type'', JStr ''n8n-nodes-base.start''),
          (''typeVersion'', JInt 1),
          (''position'', JArr [JInt 250, JInt 300])],
        JObj [
          (''parameters'', JObj [
            (''mode'', JStr ''runOnceForEachItem''),
            (''jsCode'', JStr ''// Store task in database or schedule system\<newline>const task = $input.item.json;\<newline>\<newline>// Parse the scheduled time\<newline>const scheduledTime = new Date(task.scheduled_time);\<newline>const now = new Date();\<newline>\<newline>// Calculate delay in milliseconds\<newline>const delay = scheduledTime - now;\<newline>\<newline>return {\<newline>  task_id: Math.random().toString(36).substr(2, 9),\<newline>  title: task.title,\<newline>  description: task.description,\<newline>  scheduled_time: scheduledTime.toISOString(),\<newline>  delay_ms: delay,\<newline>  user_id: task.user_id,\<newline>  notification_method: task.notification_method || 'email'\<newline>};'')]),
          (''name'', JStr ''Process Task''),
          (''type'', JStr ''n8n-nodes-base.code''),
          (''typeVersion'', JInt 1),
          (''position'', JArr [JInt 450, JInt 300])],
        JObj [
          (''parameters'', JObj [
            (''amount'', JStr ''={{$json["delay_ms"]}}''),
            (''unit'', JStr ''milliseconds'')]),
          (''name'', JStr ''Wait''),
          (''type'', JStr ''n8n-nodes-base.wait''),
          (''typeVersion'', JInt 1),
          (''position'', JArr [JInt 650, JInt 300])],
        JObj [
          (''parameters'', JObj [
            (''workflowId'', JStr ''={{$parameter["notification_workflow_id"]}}''),
            (''workflowParameters'', JStr ''={\<newline>  "channel": "{{$json["notification_method"]}}",\<newline>  "recipient": "{{$json["user_id"]}}",\<newline>  "subject": "Reminder: {{$json["title"]}}",\<newline>  "message": "{{$json["description"]}}"\<newline>}'')]),
          (''name'', JStr ''Send Reminder''),
          (''type'', JStr ''n8n-nodes-base.executeWorkflow''),
          (''typeVersion'', JInt 1),
          (''position'', JArr [JInt 850, JInt 300])]]),
      (''connections'', JObj [
        (''Start'', JObj [
          (''main'', JArr [
            JArr [
              JObj [
                (''node'', JStr ''Process Task''),
                (''type'', JStr ''main''),
                (''index'', JInt 0)]]])]),
        (''Process Task'', JObj [
          (''main'', JArr [
            JArr [
              JObj [
                (''node'', JStr ''Wait''),
                (''type'', JStr ''main''),
                (''index'', JInt 0)]]])]),
        (''Wait'', JObj [
          (''main'', JArr [
            JArr [
              JObj [
                (''node'', JStr ''Send Reminder''),
                (''type'', JStr ''main''),
                (''index'', JInt 0)]]])])])]\<close>

text \<open>
  The check mark U+2713 that opens the status lines, as the bytes standard output
  receives in UTF-8, and the apostrophe that surrounds a workflow name.
\<close>

definition check_mark :: string where
  "check_mark = [CHR 0xE2, CHR 0x9C, CHR 0x93]"

definition apostrophe :: string where
  "apostrophe = [CHR 0x27]"

definition exists_line :: "string \<Rightarrow> piece list" where
  "exists_line workflow_name =
     [Txt (check_mark @ '' Workflow '' @ apostrophe), Txt workflow_name,
      Txt (apostrophe @ '' already exists'')]"

definition created_line :: "string \<Rightarrow> json \<Rightarrow> piece list" where
  "created_line workflow_name workflow_id =
     [Txt (check_mark @ '' Created workflow '' @ apostrophe), Txt workflow_name,
      Txt (apostrophe @ '' with ID: ''), Val workflow_id]"

definition create_send_notification_workflow ::
  "N8NWorkflowSetup \<Rightarrow> 's service \<Rightarrow> 's world \<Rightarrow> (exn + unit) \<times> 's world" where
  "create_send_notification_workflow self srv w =
     (let workflow_name = ''SHAAD_Send_Notification'' in
      case workflow_exists self srv workflow_name w of
        (Inl e, w1) \<Rightarrow> (Inl e, w1)
      | (Inr found, w1) \<Rightarrow>
          if found then (Inr (), print (exists_line workflow_name) w1)
          else
            (let workflow = send_notification_workflow workflow_name in
             case create_workflow self srv workflow w1 of
               (Inl e, w2) \<Rightarrow> (Inl e, w2)
             | (Inr workflow_id, w2) \<Rightarrow>
                 (Inr (),
                  if truthy workflow_id then print (created_line workflow_name workflow_id) w2
                  else w2)))"

definition create_web_search_workflow ::
  "N8NWorkflowSetup \<Rightarrow> 's service \<Rightarrow> 's world \<Rightarrow> (exn + unit) \<times> 's world" where
  "create_web_search_workflow self srv w =
     (let workflow_name = ''SHAAD_Web_Search'' in
      case workflow_exists self srv workflow_name w of
        (Inl e, w1) \<Rightarrow> (Inl e, w1)
      | (Inr found, w1) \<Rightarrow>
          if found then (Inr (), print (exists_line workflow_name) w1)
          else
            (let workflow = web_search_workflow workflow_name in
             case create_workflow self srv workflow w1 of
               (Inl e, w2) \<Rightarrow> (Inl e, w2)
             | (Inr workflow_id, w2) \<Rightarrow>
                 (Inr (),
                  if truthy workflow_id then print (created_line workflow_name workflow_id) w2
                  else w2)))"

definition create_home_automation_workflow ::
  "N8NWorkflowSetup \<Rightarrow> 's service \<Rightarrow> 's world \<Rightarrow> (exn + unit) \<times> 's world" where
  "create_home_automation_workflow self srv w =
     (let workflow_name = ''SHAAD_Home_Control'' in
      case workflow_exists self srv workflow_name w of
        (Inl e, w1) \<Rightarrow> (Inl e, w1)
      | (Inr found, w1) \<Rightarrow>
          if found then (Inr (), print (exists_line workflow_name) w1)
          else
            (let workflow = home_automation_workflow workflow_name in
             case create_workflow self srv workflow w1 of
               (Inl e, w2) \<Rightarrow> (Inl e, w2)
             | (Inr workflow_id, w2) \<Rightarrow>
                 (Inr (),
                  if truthy workflow_id then print (created_line workflow_name workflow_id) w2
                  else w2)))"

definition create_schedule_task_workflow ::
  "N8NWorkflowSetup \<Rightarrow> 's service \<Rightarrow> 's world \<Rightarrow> (exn + unit) \<times> 's world" where
  "create_schedule_task_workflow self srv w =
     (let workflow_name = ''SHAAD_Schedule_Task'' in
      case workflow_exists self srv workflow_name w of
        (Inl e, w1) \<Rightarrow> (Inl e, w1)
      | (Inr found, w1) \<Rightarrow>
          if found then (Inr (), print (exists_line workflow_name) w1)
          else
            (let workflow = schedule_task_workflow workflow_name in
             case create_workflow self srv workflow w1 of
               (Inl e, w2) \<Rightarrow> (Inl e, w2)
             | (Inr workflow_id, w2) \<Rightarrow>
                 (Inr (),
                  if truthy workflow_id then print (created_line workflow_name workflow_id) w2
                  else w2)))"

text \<open>Statement sequencing: an exception ends the block, otherwise the next statement runs.\<close>

definition and_then ::
  "(exn + unit) \<times> 's world \<Rightarrow> ('s world \<Rightarrow> (exn + unit) \<times> 's world) \<Rightarrow> (exn + unit) \<times> 's world" where
  "and_then r f = (case r of (Inl e, w) \<Rightarrow> (Inl e, w) | (Inr u, w) \<Rightarrow> f w)"

definition banner :: "piece list list" where
  "banner = [[Txt ''Setting up n8n workflows for SHAAD...''], [Txt (replicate 50 (CHR ''=''))]]"

definition footer :: "piece list list" where
  "footer =
     [[Txt (replicate 50 (CHR ''=''))],
      [Txt (check_mark @ '' Workflow setup complete!'')],
      [Txt ''\<newline>Available workflows:''],
      [Txt ''- SHAAD_Send_Notification: Send notifications via email, webhook, etc.''],
      [Txt ''- SHAAD_Web_Search: Search the web for information''],
      [Txt ''- SHAAD_Home_Control: Control smart home devices''],
      [Txt ''- SHAAD_Schedule_Task: Schedule tasks and reminders'']]"

definition print_all :: "piece list list \<Rightarrow> 's world \<Rightarrow> 's world" where
  "print_all ls w = fold print ls w"

definition setup_all_workflows ::
  "N8NWorkflowSetup \<Rightarrow> 's service \<Rightarrow> 's world \<Rightarrow> (exn + unit) \<times> 's world" where
  "setup_all_workflows self srv w =
     and_then (create_send_notification_workflow self srv (print_all banner w)) (\<lambda>w1.
     and_then (create_web_search_workflow self srv w1) (\<lambda>w2.
     and_then (create_home_automation_workflow self srv w2) (\<lambda>w3.
     and_then (create_schedule_task_workflow self srv w3) (\<lambda>w4.
     (Inr (), print_all footer w4)))))"


section \<open>Notions used to state the properties\<close>

text \<open>The two requests the class issues, as \<^verbatim>\<open>workflow_exists\<close> and \<^verbatim>\<open>create_workflow\<close> build them.\<close>

definition listing_request :: "N8NWorkflowSetup \<Rightarrow> request" where
  "listing_request self =
     \<lparr>req_method = GET, req_url = base_url self @ ''/api/v1/workflows'',
      req_headers = headers self, req_auth = auth self, req_json = None\<rparr>"

definition creation_request :: "N8NWorkflowSetup \<Rightarrow> json \<Rightarrow> request" where
  "creation_request self workflow_data =
     \<lparr>req_method = POST, req_url = base_url self @ ''/api/v1/workflows'',
      req_headers = headers self, req_auth = auth self, req_json = Some workflow_data\<rparr>"

text \<open>A run starts with nothing sent and nothing printed.\<close>

definition start :: "'s \<Rightarrow> 's world" where
  "start s = \<lparr>remote = s, sent = [], stdout = []\<rparr>"

text \<open>The world after one request has been issued and the service has moved to \<open>s'\<close>.\<close>

definition exchanged :: "'s world \<Rightarrow> request \<Rightarrow> 's \<Rightarrow> 's world" where
  "exchanged w rq s' = w\<lparr>remote := s', sent := sent w @ [rq]\<rparr>"

text \<open>
  The body the four template functions have in common, with the name that is checked
  and the definition that is submitted as two separate arguments.
\<close>

definition check_then_create ::
  "string \<Rightarrow> json \<Rightarrow> N8NWorkflowSetup \<Rightarrow> 's service \<Rightarrow> 's world \<Rightarrow> (exn + unit) \<times> 's world" where
  "check_then_create workflow_name workflow self srv w =
     (case workflow_exists self srv workflow_name w of
        (Inl e, w1) \<Rightarrow> (Inl e, w1)
      | (Inr found, w1) \<Rightarrow>
          if found then (Inr (), print (exists_line workflow_name) w1)
          else
            (case create_workflow self srv workflow w1 of
               (Inl e, w2) \<Rightarrow> (Inl e, w2)
             | (Inr workflow_id, w2) \<Rightarrow>
                 (Inr (),
                  if truthy workflow_id then print (created_line workflow_name workflow_id) w2
                  else w2)))"

definition template_names :: "string list" where
  "template_names =
     [''SHAAD_Send_Notification'', ''SHAAD_Web_Search'', ''SHAAD_Home_Control'',
      ''SHAAD_Schedule_Task'']"

text \<open>
  The four templates as pairs of the name checked and the definition submitted, in the
  order \<^verbatim>\<open>setup_all_workflows\<close> calls them, and the flows of a list of such pairs run one
  after the other.
\<close>

definition templates :: "(string \<times> json) list" where
  "templates =
     [(''SHAAD_Send_Notification'', send_notification_workflow ''SHAAD_Send_Notification''),
      (''SHAAD_Web_Search'', web_search_workflow ''SHAAD_Web_Search''),
      (''SHAAD_Home_Control'', home_automation_workflow ''SHAAD_Home_Control''),
      (''SHAAD_Schedule_Task'', schedule_task_workflow ''SHAAD_Schedule_Task'')]"

fun flows ::
  "(string \<times> json) list \<Rightarrow> N8NWorkflowSetup \<Rightarrow> 's service \<Rightarrow> 's world \<Rightarrow> (exn + unit) \<times> 's world" where
  "flows [] self srv w = (Inr (), w)"
| "flows (t # ts) self srv w =
     and_then (check_then_create (fst t) (snd t) self srv w) (flows ts self srv)"

text \<open>A template whose definition carries the name that is checked.\<close>

definition named :: "string \<times> json \<Rightarrow> bool" where
  "named t = (subscript (snd t) ''name'' = Inr (JStr (fst t)))"

subsection \<open>Shapes of response bodies\<close>

text \<open>The \<^verbatim>\<open>data\<close> member of a body, when the body is JSON and a dict that has one.\<close>

definition data_member :: "json option \<Rightarrow> json option" where
  "data_member b =
     (case b of
        None \<Rightarrow> None
      | Some j \<Rightarrow> (case subscript j ''data'' of Inl e \<Rightarrow> None | Inr d \<Rightarrow> Some d))"

text \<open>The body is JSON that contains \<^verbatim>\<open>data.id\<close>.\<close>

definition has_data_id :: "json option \<Rightarrow> bool" where
  "has_data_id b =
     (case data_member b of
        None \<Rightarrow> False
      | Some d \<Rightarrow> (case subscript d ''id'' of Inl e \<Rightarrow> False | Inr i \<Rightarrow> True))"

definition has_name :: "json \<Rightarrow> bool" where
  "has_name w = (case subscript w ''name'' of Inl e \<Rightarrow> False | Inr v \<Rightarrow> True)"



text \<open>The value is a list.\<close>

fun is_array :: "json \<Rightarrow> bool" where
  "is_array (JArr xs) = True"
| "is_array j = False"

subsection \<open>What one template's flow did\<close>

datatype outcome = Existed | Created json | Failed string



subsection \<open>Credentials as the environment gives them\<close>

text \<open>The API key, when the variable holds a non-empty value.\<close>

definition api_key :: "(string \<rightharpoonup> string) \<Rightarrow> string option" where
  "api_key env = (case env ''N8N_API_KEY'' of Some (c # cs) \<Rightarrow> Some (c # cs) | _ \<Rightarrow> None)"

text \<open>The basic-auth pair, when user and password both hold a non-empty value.\<close>

definition basic_credentials :: "(string \<rightharpoonup> string) \<Rightarrow> (string \<times> string) option" where
  "basic_credentials env =
     (case env ''N8N_BASIC_AUTH_USER'' of
        Some (c # cs) \<Rightarrow>
          (case env ''N8N_BASIC_AUTH_PASSWORD'' of
             Some (d # ds) \<Rightarrow> Some (c # cs, d # ds)
           | _ \<Rightarrow> None)
      | _ \<Rightarrow> None)"

text \<open>What every request of a run must carry, by the resolution order of \<^verbatim>\<open>__init__\<close>.\<close>

definition carries :: "(string \<rightharpoonup> string) \<Rightarrow> request \<Rightarrow> bool" where
  "carries env rq =
     (case api_key env of
        Some k \<Rightarrow> map_of (req_headers rq) ''X-N8N-API-KEY'' = Some k \<and> req_auth rq = None
      | None \<Rightarrow>
          map_of (req_headers rq) ''X-N8N-API-KEY'' = None \<and> req_auth rq = basic_credentials env)"

text \<open>A request that carries the headers and credentials the object resolved.\<close>

definition from_setup :: "N8NWorkflowSetup \<Rightarrow> request \<Rightarrow> bool" where
  "from_setup self rq = (req_headers rq = headers self \<and> req_auth rq = auth self)"

subsection \<open>Reading a workflow definition\<close>

fun items_of :: "json \<Rightarrow> (string \<times> json) list" where
  "items_of (JObj items) = items"
| "items_of j = []"

fun elements_of :: "json \<Rightarrow> json list" where
  "elements_of (JArr xs) = xs"
| "elements_of j = []"

definition member_of :: "string \<Rightarrow> json \<Rightarrow> json" where
  "member_of k j = (case map_of (items_of j) k of None \<Rightarrow> JNull | Some v \<Rightarrow> v)"

definition string_member :: "string \<Rightarrow> json \<Rightarrow> string option" where
  "string_member k j = (case map_of (items_of j) k of Some (JStr s) \<Rightarrow> Some s | _ \<Rightarrow> None)"

text \<open>The names of the nodes, in the order of the \<^verbatim>\<open>nodes\<close> list.\<close>

definition node_names :: "json \<Rightarrow> string option list" where
  "node_names workflow = map (string_member ''name'') (elements_of (member_of ''nodes'' workflow))"

text \<open>The keys of the \<^verbatim>\<open>connections\<close> map.\<close>

definition connection_sources :: "json \<Rightarrow> string option list" where
  "connection_sources workflow =
     map (\<lambda>kv. Some (fst kv)) (items_of (member_of ''connections'' workflow))"

text \<open>
  The \<^verbatim>\<open>node\<close> of every downstream target: for every source, every port type, every
  output of that port, every target listed there.
\<close>

definition connection_targets :: "json \<Rightarrow> string option list" where
  "connection_targets workflow =
     concat (map (\<lambda>src.
       concat (map (\<lambda>port.
         concat (map (\<lambda>output. map (string_member ''node'') (elements_of output))
           (elements_of (snd port))))
         (items_of (snd src))))
       (items_of (member_of ''connections'' workflow)))"

definition consistent :: "json \<Rightarrow> bool" where
  "consistent workflow =
     list_all (\<lambda>x. x \<noteq> None \<and> x \<in> set (node_names workflow))
       (connection_sources workflow @ connection_targets workflow)"

section \<open>Remote services\<close>

text \<open>
  A service that plays a fixed list of answers, one per request, whatever is asked;
  when the list is used up the connection fails.
\<close>

fun scripted :: "(exn + response) list service" where
  "scripted [] rq = (Inl RequestException, [])"
| "scripted (a # answers) rq = (a, answers)"


text \<open>
  A stateful service: it keeps the workflows it holds as pairs of id and name, lists
  all of them with status 200 on every GET, and on a POST of a definition with a string
  name either stores it under a new id and answers 201 with that id, or rejects it with
  status 500 and stores nothing. The list \<open>verdicts\<close> fixes what the next creations
  meet; when it is used up every creation is accepted. The function \<open>render\<close> is the
  service's own serialiser of a body.
\<close>

datatype verdict = Accept json | Reject string

record store =
  held :: "(json \<times> string) list"
  verdicts :: "verdict list"

definition record_of :: "json \<times> string \<Rightarrow> json" where
  "record_of p = JObj [(''id'', fst p), (''name'', JStr (snd p))]"

definition listing :: "(json \<times> string) list \<Rightarrow> json" where
  "listing ps = JObj [(''data'', JArr (map record_of ps))]"

definition posted_name :: "request \<Rightarrow> string option" where
  "posted_name rq = (case req_json rq of None \<Rightarrow> None | Some j \<Rightarrow> string_member ''name'' j)"

definition next_verdict :: "store \<Rightarrow> verdict" where
  "next_verdict s =
     (case verdicts s of [] \<Rightarrow> Accept (JInt (int (length (held s)) + 1)) | v # vs \<Rightarrow> v)"

definition stateful :: "(json \<Rightarrow> string) \<Rightarrow> store service" where
  "stateful render s rq =
     (case req_method rq of
        GET \<Rightarrow>
          (Inr \<lparr>status_code = 200, response_text = render (listing (held s)),
                json_body = Some (listing (held s))\<rparr>, s)
      | POST \<Rightarrow>
          (case posted_name rq of
             None \<Rightarrow> (Inr \<lparr>status_code = 400, response_text = ''name missing'', json_body = None\<rparr>, s)
           | Some n \<Rightarrow>
               (case next_verdict s of
                  Accept i \<Rightarrow>
                    (Inr \<lparr>status_code = 201,
                          response_text = render (JObj [(''data'', JObj [(''id'', i)])]),
                          json_body = Some (JObj [(''data'', JObj [(''id'', i)])])\<rparr>,
                     s\<lparr>held := held s @ [(i, n)], verdicts := tl (verdicts s)\<rparr>)
                | Reject t \<Rightarrow>
                    (Inr \<lparr>status_code = 500, response_text = t, json_body = None\<rparr>,
                     s\<lparr>verdicts := tl (verdicts s)\<rparr>))))"

definition is_accept :: "verdict \<Rightarrow> bool" where
  "is_accept v = (case v of Accept i \<Rightarrow> True | Reject t \<Rightarrow> False)"

definition names_held :: "store \<Rightarrow> string list" where
  "names_held s = map snd (held s)"

text \<open>What one template's flow leaves of the stateful service.\<close>

definition store_after :: "string \<Rightarrow> store \<Rightarrow> store" where
  "store_after n s =
     (if n \<in> set (names_held s) then s
      else (case next_verdict s of
              Accept i \<Rightarrow> s\<lparr>held := held s @ [(i, n)], verdicts := tl (verdicts s)\<rparr>
            | Reject t \<Rightarrow> s\<lparr>verdicts := tl (verdicts s)\<rparr>))"

text \<open>
  The requests that the flows of a list of templates issue against the stateful service
  that starts from the store \<open>s\<close>: the listing, and the creation when the name is not held.
\<close>

fun stateful_requests :: "N8NWorkflowSetup \<Rightarrow> (string \<times> json) list \<Rightarrow> store \<Rightarrow> request list" where
  "stateful_requests self [] s = []"
| "stateful_requests self (t # ts) s =
     (if fst t \<in> set (names_held s) then [listing_request self]
      else [listing_request self, creation_request self (snd t)])
     @ stateful_requests self ts (store_after (fst t) s)"

text \<open>Two runs of the setup in a row against the stateful service, from the store \<open>s\<close>.\<close>

definition first_run ::
  "(json \<Rightarrow> string) \<Rightarrow> N8NWorkflowSetup \<Rightarrow> store \<Rightarrow> (exn + unit) \<times> store world" where
  "first_run render self s = setup_all_workflows self (stateful render) (start s)"

definition second_run ::
  "(json \<Rightarrow> string) \<Rightarrow> N8NWorkflowSetup \<Rightarrow> store \<Rightarrow> (exn + unit) \<times> store world" where
  "second_run render self s =
     setup_all_workflows self (stateful render) (snd (first_run render self s))"

section \<open>Concrete answers, environments and stores\<close>

text \<open>A listing that holds one workflow, \<^verbatim>\<open>SHAAD_Web_Search\<close>.\<close>

definition answer_listing :: response where
  \<open>answer_listing =
     \<lparr>status_code = 200,
      response_text = ''{"data": [{"id": 1, "name": "SHAAD_Web_Search"}]}'',
      json_body = Some (JObj [(''data'',
        JArr [JObj [(''id'', JInt 1), (''name'', JStr ''SHAAD_Web_Search'')]])])\<rparr>\<close>


text \<open>A listing answered 200 whose \<^verbatim>\<open>data\<close> member is an empty object instead of an array.\<close>

definition answer_data_object :: response where
  \<open>answer_data_object =
     \<lparr>status_code = 200, response_text = ''{"data": {}}'',
      json_body = Some (JObj [(''data'', JObj [])])\<rparr>\<close>

text \<open>A listing answered 200 whose \<^verbatim>\<open>data\<close> member is a number.\<close>

definition answer_data_number :: response where
  \<open>answer_data_number =
     \<lparr>status_code = 200, response_text = ''{"data": 5}'',
      json_body = Some (JObj [(''data'', JInt 5)])\<rparr>\<close>

text \<open>A listing answered 200 whose body has no \<^verbatim>\<open>data\<close> member.\<close>

definition answer_no_data :: response where
  \<open>answer_no_data =
     \<lparr>status_code = 200, response_text = ''{"workflows": []}'',
      json_body = Some (JObj [(''workflows'', JArr [])])\<rparr>\<close>

text \<open>A creation answered 201 with the id \<^verbatim>\<open>"17"\<close>.\<close>

definition answer_created :: response where
  \<open>answer_created =
     \<lparr>status_code = 201, response_text = ''{"data": {"id": "17"}}'',
      json_body = Some (JObj [(''data'', JObj [(''id'', JStr ''17'')])])\<rparr>\<close>


text \<open>A creation answered 201 whose body is not JSON.\<close>

definition answer_created_html :: response where
  "answer_created_html =
     \<lparr>status_code = 201, response_text = ''<html>Created</html>'', json_body = None\<rparr>"

definition answer_error :: response where
  "answer_error =
     \<lparr>status_code = 500, response_text = ''Internal Server Error'', json_body = None\<rparr>"

definition answer_unavailable :: response where
  "answer_unavailable =
     \<lparr>status_code = 503, response_text = ''Service Unavailable'', json_body = None\<rparr>"

text \<open>An environment in which the API key is present but empty and basic auth is configured.\<close>

definition env_empty_key :: "string \<rightharpoonup> string" where
  "env_empty_key =
     [''N8N_API_KEY'' \<mapsto> '''', ''N8N_BASIC_AUTH_USER'' \<mapsto> ''admin'',
      ''N8N_BASIC_AUTH_PASSWORD'' \<mapsto> ''secret'']"

text \<open>
  The object built from an environment without any of the variables, a store that holds
  nothing and accepts everything, a store that holds nothing and rejects the first
  creation it meets, and a serialiser that is of no concern to the script.
\<close>

definition default_setup :: N8NWorkflowSetup where
  "default_setup = init Map.empty"

definition empty_store :: store where
  "empty_store = \<lparr>held = [], verdicts = []\<rparr>"

definition busy_store :: store where
  "busy_store = \<lparr>held = [], verdicts = [Reject ''Service busy'']\<rparr>"

definition blank :: "json \<Rightarrow> string" where
  "blank j = ''''"

section \<open>Requests issued by the two remote calls\<close>

lemma workflow_exists_sent:
  "sent (snd (workflow_exists self srv name w)) = sent w @ [listing_request self]"
  by (simp add: workflow_exists_def requests_get_def perform_def listing_request_def
      split: prod.splits sum.splits)

lemma create_workflow_sent:
  "sent (snd (create_workflow self srv workflow_data w)) =
     sent w @ [creation_request self workflow_data]"
  by (simp add: create_workflow_def requests_post_def perform_def creation_request_def print_def
      split: prod.splits sum.splits)

lemma base_url_init:
  "base_url (init env) =
     ''http://'' @ getenv env ''N8N_HOST'' ''localhost'' @ '':'' @ getenv env ''N8N_PORT'' ''5678''"
  by (simp add: init_def Let_def split: option.splits list.splits)

text \<open>
  Claim C7. The base URL is \<^verbatim>\<open>http://{N8N_HOST}:{N8N_PORT}\<close>, where an unset host reads
  \<^verbatim>\<open>localhost\<close> and an unset port reads \<^verbatim>\<open>5678\<close>; the listing call issues one GET and the
  creation call one POST, both to the base URL followed by \<^verbatim>\<open>/api/v1/workflows\<close>, whatever
  the service answers.
\<close>

theorem base_url_and_endpoint:
  "base_url (init env) =
     ''http://'' @ (case env ''N8N_HOST'' of None \<Rightarrow> ''localhost'' | Some h \<Rightarrow> h) @ '':'' @
     (case env ''N8N_PORT'' of None \<Rightarrow> ''5678'' | Some p \<Rightarrow> p)
   \<and> sent (snd (workflow_exists (init env) srv name w)) =
       sent w @ [\<lparr>req_method = GET, req_url = base_url (init env) @ ''/api/v1/workflows'',
                  req_headers = headers (init env), req_auth = auth (init env), req_json = None\<rparr>]
   \<and> sent (snd (create_workflow (init env) srv workflow_data w)) =
       sent w @ [\<lparr>req_method = POST, req_url = base_url (init env) @ ''/api/v1/workflows'',
                  req_headers = headers (init env), req_auth = auth (init env),
                  req_json = Some workflow_data\<rparr>]"
  by (simp add: base_url_init getenv_def workflow_exists_sent create_workflow_sent
      listing_request_def creation_request_def)

section \<open>The template functions and their definitions\<close>

lemma create_send_notification_workflow_flow:
  "create_send_notification_workflow self srv w =
     check_then_create ''SHAAD_Send_Notification''
       (send_notification_workflow ''SHAAD_Send_Notification'') self srv w"
  by (simp add: create_send_notification_workflow_def check_then_create_def Let_def
      split: prod.split sum.split)

lemma create_web_search_workflow_flow:
  "create_web_search_workflow self srv w =
     check_then_create ''SHAAD_Web_Search'' (web_search_workflow ''SHAAD_Web_Search'') self srv w"
  by (simp add: create_web_search_workflow_def check_then_create_def Let_def
      split: prod.split sum.split)

lemma create_home_automation_workflow_flow:
  "create_home_automation_workflow self srv w =
     check_then_create ''SHAAD_Home_Control''
       (home_automation_workflow ''SHAAD_Home_Control'') self srv w"
  by (simp add: create_home_automation_workflow_def check_then_create_def Let_def
      split: prod.split sum.split)

lemma create_schedule_task_workflow_flow:
  "create_schedule_task_workflow self srv w =
     check_then_create ''SHAAD_Schedule_Task''
       (schedule_task_workflow ''SHAAD_Schedule_Task'') self srv w"
  by (simp add: create_schedule_task_workflow_def check_then_create_def Let_def
      split: prod.split sum.split)

lemma workflow_name_member:
  "subscript (send_notification_workflow n) ''name'' = Inr (JStr n)"
  "subscript (web_search_workflow n) ''name'' = Inr (JStr n)"
  "subscript (home_automation_workflow n) ''name'' = Inr (JStr n)"
  "subscript (schedule_task_workflow n) ''name'' = Inr (JStr n)"
  by (simp_all add: send_notification_workflow_def web_search_workflow_def
      home_automation_workflow_def schedule_task_workflow_def)

text \<open>
  Claim C9. Each of the four template functions is the common check-then-create body run
  on a name and a definition whose \<^verbatim>\<open>name\<close> member is that same string: the name given to
  \<^verbatim>\<open>workflow_exists\<close> equals the name of the definition given to \<^verbatim>\<open>create_workflow\<close>.
\<close>

theorem same_idempotency_key:
  "create_send_notification_workflow self srv w =
     check_then_create ''SHAAD_Send_Notification''
       (send_notification_workflow ''SHAAD_Send_Notification'') self srv w
   \<and> subscript (send_notification_workflow ''SHAAD_Send_Notification'') ''name'' =
       Inr (JStr ''SHAAD_Send_Notification'')
   \<and> create_web_search_workflow self srv w =
     check_then_create ''SHAAD_Web_Search'' (web_search_workflow ''SHAAD_Web_Search'') self srv w
   \<and> subscript (web_search_workflow ''SHAAD_Web_Search'') ''name'' = Inr (JStr ''SHAAD_Web_Search'')
   \<and> create_home_automation_workflow self srv w =
     check_then_create ''SHAAD_Home_Control''
       (home_automation_workflow ''SHAAD_Home_Control'') self srv w
   \<and> subscript (home_automation_workflow ''SHAAD_Home_Control'') ''name'' =
       Inr (JStr ''SHAAD_Home_Control'')
   \<and> create_schedule_task_workflow self srv w =
     check_then_create ''SHAAD_Schedule_Task''
       (schedule_task_workflow ''SHAAD_Schedule_Task'') self srv w
   \<and> subscript (schedule_task_workflow ''SHAAD_Schedule_Task'') ''name'' =
       Inr (JStr ''SHAAD_Schedule_Task'')"
  by (simp add: create_send_notification_workflow_flow create_web_search_workflow_flow
      create_home_automation_workflow_flow create_schedule_task_workflow_flow
      workflow_name_member)

lemma consistent_send_notification: "consistent (send_notification_workflow n)"
  by (simp add: consistent_def node_names_def connection_sources_def connection_targets_def
      send_notification_workflow_def member_of_def string_member_def)

lemma consistent_web_search: "consistent (web_search_workflow n)"
  by (simp add: consistent_def node_names_def connection_sources_def connection_targets_def
      web_search_workflow_def member_of_def string_member_def)

lemma consistent_home_automation: "consistent (home_automation_workflow n)"
  by (simp add: consistent_def node_names_def connection_sources_def connection_targets_def
      home_automation_workflow_def member_of_def string_member_def)

lemma consistent_schedule_task: "consistent (schedule_task_workflow n)"
  by (simp add: consistent_def node_names_def connection_sources_def connection_targets_def
      schedule_task_workflow_def member_of_def string_member_def)

text \<open>
  Claim C10. In each of the four definitions, every key of the \<^verbatim>\<open>connections\<close> map and
  every \<^verbatim>\<open>node\<close> of a downstream target is the name of a node in the \<^verbatim>\<open>nodes\<close> list.
\<close>

theorem definitions_consistent:
  "consistent (send_notification_workflow ''SHAAD_Send_Notification'')
   \<and> consistent (web_search_workflow ''SHAAD_Web_Search'')
   \<and> consistent (home_automation_workflow ''SHAAD_Home_Control'')
   \<and> consistent (schedule_task_workflow ''SHAAD_Schedule_Task'')"
  by (simp add: consistent_send_notification consistent_web_search consistent_home_automation
      consistent_schedule_task)

section \<open>Reading the answer of the service\<close>

lemma requests_get_answer:
  "srv (remote w) (listing_request self) = (res, s') \<Longrightarrow>
   requests_get srv (base_url self @ ''/api/v1/workflows'') (headers self) (auth self) w =
     (res, exchanged w (listing_request self) s')"
  by (simp add: requests_get_def perform_def listing_request_def exchanged_def)

lemma requests_post_answer:
  "srv (remote w) (creation_request self d) = (res, s') \<Longrightarrow>
   requests_post srv (base_url self @ ''/api/v1/workflows'') d (headers self) (auth self) w =
     (res, exchanged w (creation_request self d) s')"
  by (simp add: requests_post_def perform_def creation_request_def exchanged_def)


lemma workflow_exists_other:
  "srv (remote w) (listing_request self) = (Inr r, s') \<Longrightarrow> status_code r \<noteq> 200 \<Longrightarrow>
   workflow_exists self srv name w = (Inr False, exchanged w (listing_request self) s')"
  by (simp add: workflow_exists_def requests_get_answer)

lemma workflow_exists_200:
  "srv (remote w) (listing_request self) = (Inr r, s') \<Longrightarrow> status_code r = 200 \<Longrightarrow>
   workflow_exists self srv name w =
     ((case data_member (json_body r) of
         None \<Rightarrow> (case json_body r of None \<Rightarrow> Inl JSONDecodeError
                   | Some j \<Rightarrow> (case subscript j ''data'' of Inl e \<Rightarrow> Inl e | Inr d \<Rightarrow> Inr False))
       | Some d \<Rightarrow> (case iterate d of Inl e \<Rightarrow> Inl e | Inr ws \<Rightarrow> any_name name ws)),
      exchanged w (listing_request self) s')"
  by (simp add: workflow_exists_def requests_get_answer response_json_def data_member_def
      split: option.splits sum.splits)

lemma any_name_has_name:
  "list_all has_name ws \<Longrightarrow>
   any_name name ws = Inr (\<exists>x \<in> set ws. subscript x ''name'' = Inr (JStr name))"
  by (induction ws) (auto simp: has_name_def split: sum.splits)

lemma create_workflow_failed:
  "srv (remote w) (creation_request self d) = (Inl e, s') \<Longrightarrow>
   create_workflow self srv d w = (Inl e, exchanged w (creation_request self d) s')"
  by (simp add: create_workflow_def requests_post_answer)

lemma create_workflow_other:
  "srv (remote w) (creation_request self d) = (Inr r, s') \<Longrightarrow> status_code r \<noteq> 201 \<Longrightarrow>
   create_workflow self srv d w =
     (Inr JNull, print [Txt ''Failed to create workflow: '', Txt (response_text r)]
        (exchanged w (creation_request self d) s'))"
  by (simp add: create_workflow_def requests_post_answer)

lemma create_workflow_201:
  "srv (remote w) (creation_request self d) = (Inr r, s') \<Longrightarrow> status_code r = 201 \<Longrightarrow>
   data_member (json_body r) = Some dat \<Longrightarrow> subscript dat ''id'' = Inr i \<Longrightarrow>
   create_workflow self srv d w = (Inr i, exchanged w (creation_request self d) s')"
  by (auto simp: create_workflow_def requests_post_answer response_json_def data_member_def
      split: option.splits sum.splits)

lemma create_workflow_201_raises:
  "srv (remote w) (creation_request self d) = (Inr r, s') \<Longrightarrow> status_code r = 201 \<Longrightarrow>
   isl (fst (create_workflow self srv d w)) = (\<not> has_data_id (json_body r))"
  by (simp add: create_workflow_def requests_post_answer response_json_def data_member_def
      has_data_id_def split: option.splits sum.splits)

lemma scripted_start: "scripted (remote (start (a # answers))) rq = (a, answers)"
  by (simp add: start_def)

text \<open>
  Claim C2. When the listing call gets a response, \<^verbatim>\<open>workflow_exists\<close> has issued exactly the
  one GET; a status other than 200 gives \<^verbatim>\<open>False\<close> without an exception; and a 200 whose
  body has the documented shape, a \<^verbatim>\<open>data\<close> array of records that each have a name, gives
  \<^verbatim>\<open>True\<close> exactly when some record's name equals the argument, character for character.
\<close>

theorem workflow_exists_correct:
  assumes "srv (remote w) (listing_request self) = (Inr r, s')"
  shows "snd (workflow_exists self srv name w) = exchanged w (listing_request self) s'
     \<and> (status_code r \<noteq> 200 \<longrightarrow> fst (workflow_exists self srv name w) = Inr False)
     \<and> (status_code r = 200 \<and> data_member (json_body r) = Some (JArr ws) \<and> list_all has_name ws \<longrightarrow>
          fst (workflow_exists self srv name w) =
            Inr (\<exists>x \<in> set ws. subscript x ''name'' = Inr (JStr name)))"
proof (cases "status_code r = 200")
  case True
  with assms show ?thesis
    by (simp add: workflow_exists_200 any_name_has_name)
next
  case False
  with assms show ?thesis
    by (simp add: workflow_exists_other)
qed

theorem workflow_exists_correct_witness:
  "fst (workflow_exists default_setup scripted ''SHAAD_Web_Search''
          (start [Inr answer_listing])) = Inr True
   \<and> fst (workflow_exists default_setup scripted ''shaad_web_search''
          (start [Inr answer_listing])) = Inr False
   \<and> fst (workflow_exists default_setup scripted ''SHAAD_Web_Search''
          (start [Inr answer_unavailable])) = Inr False"
proof -
  let ?ws = "[JObj [(''id'', JInt 1), (''name'', JStr ''SHAAD_Web_Search'')]]"
  have d: "status_code answer_listing = 200"
    "data_member (json_body answer_listing) = Some (JArr ?ws)"
    "has_name (JObj [(''id'', JInt 1), (''name'', JStr ''SHAAD_Web_Search'')])"
    by (simp_all add: answer_listing_def data_member_def has_name_def)
  have u: "status_code answer_unavailable \<noteq> 200"
    by (simp add: answer_unavailable_def)
  from workflow_exists_correct[of scripted "start [Inr answer_listing]" default_setup
      answer_listing "[]" "''SHAAD_Web_Search''" "?ws"]
    workflow_exists_correct[of scripted "start [Inr answer_listing]" default_setup
      answer_listing "[]" "''shaad_web_search''" "?ws"]
    workflow_exists_correct[of scripted "start [Inr answer_unavailable]" default_setup
      answer_unavailable "[]" "''SHAAD_Web_Search''" "?ws"]
  show ?thesis
    by (simp add: scripted_start d u)
qed

text \<open>
  Claim C3. When the creation call gets a response, \<^verbatim>\<open>create_workflow\<close> has issued exactly the
  one POST. With status 201 it returns the value found under \<^verbatim>\<open>data.id\<close> of the body and
  prints nothing; with any other status it prints one line, \<^verbatim>\<open>Failed to create workflow: \<close>
  followed by the raw body, and returns \<^verbatim>\<open>None\<close> without an exception.
\<close>

theorem create_workflow_correct:
  assumes "srv (remote w) (creation_request self d) = (Inr r, s')"
  shows "(status_code r = 201 \<and> data_member (json_body r) = Some dat \<and> subscript dat ''id'' = Inr i \<longrightarrow>
            create_workflow self srv d w = (Inr i, exchanged w (creation_request self d) s'))
       \<and> (status_code r \<noteq> 201 \<longrightarrow>
            create_workflow self srv d w =
              (Inr JNull, print [Txt ''Failed to create workflow: '', Txt (response_text r)]
                 (exchanged w (creation_request self d) s')))"
  using assms by (simp add: create_workflow_201 create_workflow_other)

theorem create_workflow_correct_witness:
  "create_workflow default_setup scripted (web_search_workflow ''SHAAD_Web_Search'')
       (start [Inr answer_created]) =
     (Inr (JStr ''17''),
      \<lparr>remote = [],
       sent = [creation_request default_setup (web_search_workflow ''SHAAD_Web_Search'')],
       stdout = []\<rparr>)
   \<and> create_workflow default_setup scripted (web_search_workflow ''SHAAD_Web_Search'')
       (start [Inr answer_error]) =
     (Inr JNull,
      \<lparr>remote = [],
       sent = [creation_request default_setup (web_search_workflow ''SHAAD_Web_Search'')],
       stdout = [[Txt ''Failed to create workflow: '', Txt ''Internal Server Error'']]\<rparr>)"
proof -
  have c: "status_code answer_created = 201"
    "data_member (json_body answer_created) = Some (JObj [(''id'', JStr ''17'')])"
    by (simp_all add: answer_created_def data_member_def)
  have e: "status_code answer_error \<noteq> 201" "response_text answer_error = ''Internal Server Error''"
    by (simp_all add: answer_error_def)
  from create_workflow_correct[of scripted "start [Inr answer_created]" default_setup
      "web_search_workflow ''SHAAD_Web_Search''" answer_created "[]"
      "JObj [(''id'', JStr ''17'')]" "JStr ''17''"]
    create_workflow_correct[of scripted "start [Inr answer_error]" default_setup
      "web_search_workflow ''SHAAD_Web_Search''" answer_error "[]"
      "JObj [(''id'', JStr ''17'')]" "JStr ''17''"]
  show ?thesis
    by (simp add: scripted_start c e) (simp add: exchanged_def print_def start_def)
qed

lemma any_name_strings: "any_name name (map (\<lambda>x. JStr (f x)) xs) = (if xs = [] then Inr False else Inl TypeError)"
  by (cases xs) simp_all

lemma iterate_not_array:
  "\<not> is_array dat \<Longrightarrow>
   (case iterate dat of Inl e \<Rightarrow> Inl e | Inr ws \<Rightarrow> any_name name ws) =
     (if dat = JObj [] \<or> dat = JStr [] then Inr False else Inl TypeError)"
  by (cases dat) (simp_all add: any_name_strings)

lemma workflow_exists_no_data:
  assumes "srv (remote w) (listing_request self) = (Inr r, s')" "status_code r = 200"
    "data_member (json_body r) = None"
  shows "isl (fst (workflow_exists self srv name w))"
proof -
  have "workflow_exists self srv name w =
     ((case json_body r of None \<Rightarrow> Inl JSONDecodeError
       | Some j \<Rightarrow> (case subscript j ''data'' of Inl e \<Rightarrow> Inl e | Inr d \<Rightarrow> Inr False)),
      exchanged w (listing_request self) s')"
    using workflow_exists_200[of srv w self r s' name] assms by simp
  with assms(3) show ?thesis
    by (simp add: data_member_def split: option.splits sum.splits)
qed

lemma workflow_exists_not_array:
  assumes "srv (remote w) (listing_request self) = (Inr r, s')" "status_code r = 200"
    "data_member (json_body r) = Some dat" "\<not> is_array dat"
  shows "fst (workflow_exists self srv name w) =
     (if dat = JObj [] \<or> dat = JStr [] then Inr False else Inl TypeError)"
  using workflow_exists_200[of srv w self r s' name] assms(1,2,3) iterate_not_array[OF assms(4), of name]
  by simp

text \<open>
  Claim C8, amended. A creation answered 201 raises exactly when the body is not JSON
  that contains \<^verbatim>\<open>data.id\<close>. A listing answered 200 raises when the body is not JSON or has
  no \<^verbatim>\<open>data\<close> member; when \<^verbatim>\<open>data\<close> is present but not an array it raises as well, except
  for an empty object and an empty string, for which \<^verbatim>\<open>workflow_exists\<close> returns \<^verbatim>\<open>False\<close>.
\<close>

theorem malformed_success_bodies:
  "(srv (remote w) (creation_request self d) = (Inr r, s') \<and> status_code r = 201 \<longrightarrow>
      isl (fst (create_workflow self srv d w)) = (\<not> has_data_id (json_body r)))
   \<and> (srv (remote w) (listing_request self) = (Inr r, s') \<and> status_code r = 200
        \<and> data_member (json_body r) = None \<longrightarrow>
      isl (fst (workflow_exists self srv name w)))
   \<and> (srv (remote w) (listing_request self) = (Inr r, s') \<and> status_code r = 200
        \<and> data_member (json_body r) = Some dat \<and> \<not> is_array dat \<longrightarrow>
      fst (workflow_exists self srv name w) =
        (if dat = JObj [] \<or> dat = JStr [] then Inr False else Inl TypeError))"
  by (simp add: create_workflow_201_raises workflow_exists_no_data workflow_exists_not_array)

theorem malformed_success_bodies_witness:
  "isl (fst (create_workflow default_setup scripted (web_search_workflow ''SHAAD_Web_Search'')
          (start [Inr answer_created_html])))
   \<and> isl (fst (workflow_exists default_setup scripted ''SHAAD_Web_Search''
          (start [Inr answer_no_data])))
   \<and> fst (workflow_exists default_setup scripted ''SHAAD_Web_Search''
          (start [Inr answer_data_number])) = Inl TypeError"
proof -
  have a: "status_code answer_created_html = 201" "\<not> has_data_id (json_body answer_created_html)"
    by (simp_all add: answer_created_html_def has_data_id_def data_member_def)
  have b: "status_code answer_no_data = 200" "data_member (json_body answer_no_data) = None"
    by (simp_all add: answer_no_data_def data_member_def)
  have c: "status_code answer_data_number = 200"
    "data_member (json_body answer_data_number) = Some (JInt 5)"
    by (simp_all add: answer_data_number_def data_member_def)
  from malformed_success_bodies[where srv = scripted and w = "start [Inr answer_created_html]"
      and self = default_setup and d = "web_search_workflow ''SHAAD_Web_Search''"
      and r = answer_created_html and s' = "[]"]
    malformed_success_bodies[where srv = scripted and w = "start [Inr answer_no_data]"
      and self = default_setup and r = answer_no_data and s' = "[]"
      and name = "''SHAAD_Web_Search''"]
    malformed_success_bodies[where srv = scripted and w = "start [Inr answer_data_number]"
      and self = default_setup and r = answer_data_number and s' = "[]"
      and name = "''SHAAD_Web_Search''" and dat = "JInt 5"]
  show ?thesis
    by (simp add: scripted_start a b c)
qed

theorem malformed_success_bodies_counterexample:
  "status_code answer_data_object = 200
   \<and> data_member (json_body answer_data_object) = Some (JObj [])
   \<and> workflow_exists default_setup scripted ''SHAAD_Web_Search'' (start [Inr answer_data_object]) =
       (Inr False, \<lparr>remote = [], sent = [listing_request default_setup], stdout = []\<rparr>)"
proof -
  have a: "status_code answer_data_object = 200"
    "data_member (json_body answer_data_object) = Some (JObj [])"
    by (simp_all add: answer_data_object_def data_member_def)
  have "scripted (remote (start [Inr answer_data_object])) (listing_request default_setup) =
      (Inr answer_data_object, [])"
    by (rule scripted_start)
  with workflow_exists_200[of scripted "start [Inr answer_data_object]" default_setup
      answer_data_object "[]" "''SHAAD_Web_Search''"] a show ?thesis
    by (simp add: exchanged_def start_def)
qed

section \<open>Headers and credentials of the requests\<close>

lemma print_sent: "sent (print l w) = sent w"
  by (simp add: print_def)

lemma print_all_sent: "sent (print_all ls w) = sent w"
  unfolding print_all_def by (induction ls arbitrary: w) (simp_all add: print_sent)

lemma check_then_create_sent:
  "\<exists>rs. sent (snd (check_then_create n d self srv w)) = sent w @ listing_request self # rs
        \<and> list_all (\<lambda>rq. rq = creation_request self d) rs"
proof (cases "workflow_exists self srv n w")
  case (Pair res w1)
  then have w1: "sent w1 = sent w @ [listing_request self]"
    using workflow_exists_sent[of self srv n w] by simp
  show ?thesis
  proof (cases res)
    case (Inl e)
    with Pair w1 show ?thesis by (simp add: check_then_create_def)
  next
    case (Inr found)
    show ?thesis
    proof (cases found)
      case True
      with Pair Inr w1 show ?thesis by (simp add: check_then_create_def print_sent)
    next
      case False
      obtain res2 w2 where c: "create_workflow self srv d w1 = (res2, w2)"
        by (cases "create_workflow self srv d w1")
      then have "sent w2 = sent w1 @ [creation_request self d]"
        using create_workflow_sent[of self srv d w1] by simp
      with Pair Inr False w1 c show ?thesis
        by (cases res2) (simp_all add: check_then_create_def print_sent)
    qed
  qed
qed

lemma check_then_create_from_setup:
  assumes "list_all (from_setup self) (sent w)"
  shows "list_all (from_setup self) (sent (snd (check_then_create n d self srv w)))"
proof -
  obtain rs where rs: "sent (snd (check_then_create n d self srv w)) = sent w @ listing_request self # rs"
      "list_all (\<lambda>rq. rq = creation_request self d) rs"
    using check_then_create_sent by blast
  have "list_all (from_setup self) rs"
    using rs(2) by (induction rs) (simp_all add: from_setup_def creation_request_def)
  with assms rs(1) show ?thesis
    by (simp add: from_setup_def listing_request_def)
qed

lemma check_then_create_nonempty: "sent (snd (check_then_create n d self srv w)) \<noteq> []"
  using check_then_create_sent[of n d self srv w] by auto

lemma and_then_invariant:
  "P (snd r) \<Longrightarrow> (\<And>w. P w \<Longrightarrow> P (snd (f w))) \<Longrightarrow> P (snd (and_then r f))"
  by (cases r) (auto simp: and_then_def split: sum.splits)

lemma setup_all_workflows_from_setup:
  "list_all (from_setup self) (sent (snd (setup_all_workflows self srv (start s))))
   \<and> sent (snd (setup_all_workflows self srv (start s))) \<noteq> []"
proof -
  let ?P = "\<lambda>w. list_all (from_setup self) (sent w) \<and> sent w \<noteq> []"
  have step: "?P (snd (check_then_create n d self srv w))" if "list_all (from_setup self) (sent w)" for n d w
    using that by (simp add: check_then_create_from_setup check_then_create_nonempty)
  have "?P (snd (setup_all_workflows self srv (start s)))"
    unfolding setup_all_workflows_def create_send_notification_workflow_flow
      create_web_search_workflow_flow create_home_automation_workflow_flow
      create_schedule_task_workflow_flow
    apply (rule and_then_invariant)
     apply (rule step)
     apply (simp add: print_all_sent start_def)
    apply (rule and_then_invariant)
     apply (rule step, simp)
    apply (rule and_then_invariant)
     apply (rule step, simp)
    apply (rule and_then_invariant)
     apply (rule step, simp)
    apply (simp add: print_all_sent)
    done
  then show ?thesis by simp
qed

lemma init_with_key:
  assumes "env ''N8N_API_KEY'' = Some (c # cs)"
  shows "headers (init env) = [(''X-N8N-API-KEY'', c # cs), (''Content-Type'', ''application/json'')]"
    and "auth (init env) = None"
  using assms by (simp_all add: init_def Let_def)

lemma init_without_key:
  assumes "env ''N8N_API_KEY'' = None \<or> env ''N8N_API_KEY'' = Some []"
  shows "headers (init env) = [(''Content-Type'', ''application/json'')]"
    and "auth (init env) =
      (if getenv env ''N8N_BASIC_AUTH_USER'' [] \<noteq> [] \<and> getenv env ''N8N_BASIC_AUTH_PASSWORD'' [] \<noteq> []
       then Some (getenv env ''N8N_BASIC_AUTH_USER'' [], getenv env ''N8N_BASIC_AUTH_PASSWORD'' [])
       else None)"
  using assms by (auto simp: init_def Let_def)

lemma basic_credentials_getenv:
  "basic_credentials env =
      (if getenv env ''N8N_BASIC_AUTH_USER'' [] \<noteq> [] \<and> getenv env ''N8N_BASIC_AUTH_PASSWORD'' [] \<noteq> []
       then Some (getenv env ''N8N_BASIC_AUTH_USER'' [], getenv env ''N8N_BASIC_AUTH_PASSWORD'' [])
       else None)"
proof (cases "env ''N8N_BASIC_AUTH_USER''")
  case None
  then show ?thesis by (simp add: basic_credentials_def getenv_def)
next
  case (Some u)
  note u = this
  show ?thesis
  proof (cases "env ''N8N_BASIC_AUTH_PASSWORD''")
    case None
    with u show ?thesis by (cases u) (simp_all add: basic_credentials_def getenv_def)
  next
    case (Some p)
    with u show ?thesis by (cases u; cases p) (simp_all add: basic_credentials_def getenv_def)
  qed
qed

lemma carries_init:
  assumes "from_setup (init env) rq"
  shows "carries env rq"
proof (cases "env ''N8N_API_KEY''")
  case None
  then have "api_key env = None" by (simp add: api_key_def)
  with assms init_without_key[of env] None show ?thesis
    by (simp add: carries_def from_setup_def basic_credentials_getenv)
next
  case (Some k)
  show ?thesis
  proof (cases k)
    case Nil
    with Some have "api_key env = None" by (simp add: api_key_def)
    with assms init_without_key[of env] Some Nil show ?thesis
      by (simp add: carries_def from_setup_def basic_credentials_getenv)
  next
    case (Cons c cs)
    with Some have "api_key env = Some k" by (simp add: api_key_def)
    with assms init_with_key[of env c cs] Some Cons show ?thesis
      by (simp add: carries_def from_setup_def)
  qed
qed

text \<open>
  Claim C4, amended. The credentials are fixed by \<^verbatim>\<open>__init__\<close> and every request of a run
  carries them, one kind at most: if \<^verbatim>\<open>N8N_API_KEY\<close> holds a non-empty value, every request
  has the \<^verbatim>\<open>X-N8N-API-KEY\<close> header with that value and no basic-auth pair; otherwise, if
  \<^verbatim>\<open>N8N_BASIC_AUTH_USER\<close> and \<^verbatim>\<open>N8N_BASIC_AUTH_PASSWORD\<close> both hold a non-empty value, every
  request has that pair and no API-key header; otherwise it has neither. A run issues at
  least one request.
\<close>

theorem authentication_resolution:
  "sent (snd (setup_all_workflows (init env) srv (start s))) \<noteq> []
   \<and> list_all (carries env) (sent (snd (setup_all_workflows (init env) srv (start s))))"
proof -
  have "list_all (from_setup (init env)) rs \<Longrightarrow> list_all (carries env) rs" for rs
    by (induction rs) (simp_all add: carries_init)
  then show ?thesis
    using setup_all_workflows_from_setup[of "init env" srv s] by simp
qed

theorem authentication_resolution_counterexample:
  "env_empty_key ''N8N_API_KEY'' = Some []
   \<and> sent (snd (workflow_exists (init env_empty_key) scripted ''SHAAD_Web_Search''
          (start [Inr answer_listing]))) =
       [\<lparr>req_method = GET, req_url = ''http://localhost:5678/api/v1/workflows'',
         req_headers = [(''Content-Type'', ''application/json'')],
         req_auth = Some (''admin'', ''secret''), req_json = None\<rparr>]"
proof -
  have e: "env_empty_key ''N8N_API_KEY'' = Some []"
    "env_empty_key ''N8N_BASIC_AUTH_USER'' = Some ''admin''"
    "env_empty_key ''N8N_BASIC_AUTH_PASSWORD'' = Some ''secret''"
    "env_empty_key ''N8N_HOST'' = None" "env_empty_key ''N8N_PORT'' = None"
    by (simp_all add: env_empty_key_def)
  have "listing_request (init env_empty_key) =
       \<lparr>req_method = GET, req_url = ''http://localhost:5678/api/v1/workflows'',
         req_headers = [(''Content-Type'', ''application/json'')],
         req_auth = Some (''admin'', ''secret''), req_json = None\<rparr>"
    by (simp add: listing_request_def init_def Let_def getenv_def e)
  then show ?thesis
    by (simp add: workflow_exists_sent e(1) start_def)
qed

section \<open>A whole run\<close>

lemma print_all_eq: "print_all ls w = w\<lparr>stdout := stdout w @ ls\<rparr>"
  unfolding print_all_def by (induction ls arbitrary: w) (simp_all add: print_def)







lemma and_then_Inr: "and_then (Inr u, w) f = f w"
  by (simp add: and_then_def)


lemma and_then_assoc: "and_then (and_then r f) g = and_then r (\<lambda>w. and_then (f w) g)"
  by (cases r) (simp add: and_then_def split: sum.splits)

lemma setup_all_workflows_flows:
  "setup_all_workflows self srv w =
     and_then (flows templates self srv (print_all banner w)) (\<lambda>w4. (Inr (), print_all footer w4))"
proof -
  have e: "(\<lambda>w. and_then (Inr (), w) f) = f" for f :: "'a world \<Rightarrow> (exn + unit) \<times> 'a world"
    by (simp add: and_then_Inr)
  show ?thesis
    unfolding setup_all_workflows_def create_send_notification_workflow_flow
      create_web_search_workflow_flow create_home_automation_workflow_flow
      create_schedule_task_workflow_flow templates_def flows.simps fst_conv snd_conv
      and_then_assoc
    by (simp only: flows.simps[abs_def] e)
qed









section \<open>Two runs against a stateful service\<close>

lemma any_name_records: "any_name n (map record_of ps) = Inr (n \<in> set (map snd ps))"
  by (induction ps) (auto simp: record_of_def)

lemma workflow_exists_stateful:
  "workflow_exists self (stateful render) n w =
     (Inr (n \<in> set (names_held (remote w))), exchanged w (listing_request self) (remote w))"
proof -
  let ?r = "\<lparr>status_code = 200, response_text = render (listing (held (remote w))),
             json_body = Some (listing (held (remote w)))\<rparr>"
  have "stateful render (remote w) (listing_request self) = (Inr ?r, remote w)"
    by (simp add: stateful_def listing_request_def)
  with workflow_exists_200[of "stateful render" w self ?r "remote w" n] show ?thesis
    by (simp add: data_member_def listing_def any_name_records names_held_def)
qed

lemma string_member_subscript:
  "subscript d k = Inr (JStr n) \<Longrightarrow> string_member k d = Some n"
  by (cases d) (auto simp: string_member_def split: option.splits)

lemma create_workflow_stateful:
  assumes "subscript d ''name'' = Inr (JStr n)"
  shows "fst (create_workflow self (stateful render) d w) \<noteq> Inl e"
    and "remote (snd (create_workflow self (stateful render) d w)) =
           (case next_verdict (remote w) of
              Accept i \<Rightarrow> (remote w)\<lparr>held := held (remote w) @ [(i, n)],
                                      verdicts := tl (verdicts (remote w))\<rparr>
            | Reject t \<Rightarrow> (remote w)\<lparr>verdicts := tl (verdicts (remote w))\<rparr>)"
proof -
  have p: "posted_name (creation_request self d) = Some n"
    using assms by (simp add: posted_name_def creation_request_def string_member_subscript)
  show "fst (create_workflow self (stateful render) d w) \<noteq> Inl e"
  proof (cases "next_verdict (remote w)")
    case (Accept i)
    let ?r = "\<lparr>status_code = 201, response_text = render (JObj [(''data'', JObj [(''id'', i)])]),
                json_body = Some (JObj [(''data'', JObj [(''id'', i)])])\<rparr>"
    have "stateful render (remote w) (creation_request self d) =
        (Inr ?r, (remote w)\<lparr>held := held (remote w) @ [(i, n)], verdicts := tl (verdicts (remote w))\<rparr>)"
      using p Accept by (simp add: stateful_def creation_request_def)
    with create_workflow_201[of "stateful render" w self d ?r _ "JObj [(''id'', i)]" i] show ?thesis
      by (simp add: data_member_def)
  next
    case (Reject t)
    have "stateful render (remote w) (creation_request self d) =
        (Inr \<lparr>status_code = 500, response_text = t, json_body = None\<rparr>,
         (remote w)\<lparr>verdicts := tl (verdicts (remote w))\<rparr>)"
      using p Reject by (simp add: stateful_def creation_request_def)
    with create_workflow_other[of "stateful render" w self d] show ?thesis by simp
  qed
  show "remote (snd (create_workflow self (stateful render) d w)) =
           (case next_verdict (remote w) of
              Accept i \<Rightarrow> (remote w)\<lparr>held := held (remote w) @ [(i, n)],
                                      verdicts := tl (verdicts (remote w))\<rparr>
            | Reject t \<Rightarrow> (remote w)\<lparr>verdicts := tl (verdicts (remote w))\<rparr>)"
  proof (cases "next_verdict (remote w)")
    case (Accept i)
    let ?r = "\<lparr>status_code = 201, response_text = render (JObj [(''data'', JObj [(''id'', i)])]),
                json_body = Some (JObj [(''data'', JObj [(''id'', i)])])\<rparr>"
    have "stateful render (remote w) (creation_request self d) =
        (Inr ?r, (remote w)\<lparr>held := held (remote w) @ [(i, n)], verdicts := tl (verdicts (remote w))\<rparr>)"
      using p Accept by (simp add: stateful_def creation_request_def)
    with create_workflow_201[of "stateful render" w self d ?r _ "JObj [(''id'', i)]" i] Accept show ?thesis
      by (simp add: data_member_def exchanged_def)
  next
    case (Reject t)
    have "stateful render (remote w) (creation_request self d) =
        (Inr \<lparr>status_code = 500, response_text = t, json_body = None\<rparr>,
         (remote w)\<lparr>verdicts := tl (verdicts (remote w))\<rparr>)"
      using p Reject by (simp add: stateful_def creation_request_def)
    with create_workflow_other[of "stateful render" w self d] Reject show ?thesis
      by (simp add: exchanged_def print_def)
  qed
qed

lemma check_then_create_stateful:
  assumes "subscript d ''name'' = Inr (JStr n)"
  shows "fst (check_then_create n d self (stateful render) w) = Inr ()"
    and "remote (snd (check_then_create n d self (stateful render) w)) = store_after n (remote w)"
    and "sent (snd (check_then_create n d self (stateful render) w)) =
           sent w @ (if n \<in> set (names_held (remote w)) then [listing_request self]
                     else [listing_request self, creation_request self d])"
proof -
  let ?w1 = "exchanged w (listing_request self) (remote w)"
  have r1: "remote ?w1 = remote w" by (simp add: exchanged_def)
  obtain res w2 where c: "create_workflow self (stateful render) d ?w1 = (res, w2)"
    by (cases "create_workflow self (stateful render) d ?w1")
  have "res \<noteq> Inl e" for e
    using create_workflow_stateful(1)[OF assms, of self render ?w1 e] c by simp
  then obtain i where res: "res = Inr i" by (cases res) auto
  have w2r: "remote w2 = (case next_verdict (remote w) of
              Accept i \<Rightarrow> (remote w)\<lparr>held := held (remote w) @ [(i, n)],
                                      verdicts := tl (verdicts (remote w))\<rparr>
            | Reject t \<Rightarrow> (remote w)\<lparr>verdicts := tl (verdicts (remote w))\<rparr>)"
    using create_workflow_stateful(2)[OF assms, of self render ?w1] c by (simp add: exchanged_def split: verdict.splits)
  have w2s: "sent w2 = sent w @ [listing_request self, creation_request self d]"
    using create_workflow_sent[of self "stateful render" d ?w1] c by (simp add: exchanged_def split: verdict.splits)
  have run: "check_then_create n d self (stateful render) w =
      (if n \<in> set (names_held (remote w)) then (Inr (), print (exists_line n) ?w1)
       else (Inr (), if truthy i then print (created_line n i) w2 else w2))"
    by (simp add: check_then_create_def workflow_exists_stateful c res)
  show "fst (check_then_create n d self (stateful render) w) = Inr ()"
    by (simp add: run)
  show "remote (snd (check_then_create n d self (stateful render) w)) = store_after n (remote w)"
    by (simp add: run store_after_def w2r print_def exchanged_def)
  show "sent (snd (check_then_create n d self (stateful render) w)) =
           sent w @ (if n \<in> set (names_held (remote w)) then [listing_request self]
                     else [listing_request self, creation_request self d])"
    by (simp add: run w2s print_def exchanged_def)
qed

lemma flows_stateful:
  assumes "list_all named ts"
  shows "fst (flows ts self (stateful render) w) = Inr ()
       \<and> remote (snd (flows ts self (stateful render) w)) = fold store_after (map fst ts) (remote w)"
  using assms
proof (induction ts arbitrary: w)
  case Nil
  then show ?case by simp
next
  case (Cons t ts)
  then have "named t" and r: "list_all named ts"
    by simp_all
  then have n: "subscript (snd t) ''name'' = Inr (JStr (fst t))"
    by (simp add: named_def)
  let ?c = "check_then_create (fst t) (snd t) self (stateful render) w"
  have c: "?c = (Inr (), snd ?c)"
    using check_then_create_stateful(1)[OF n, of self render w] by (simp add: prod_eq_iff)
  have "flows (t # ts) self (stateful render) w = flows ts self (stateful render) (snd ?c)"
    by (subst flows.simps, subst c, simp only: and_then_Inr)
  with Cons.IH[OF r, of "snd ?c"] check_then_create_stateful(2)[OF n, of self render w]
  show ?case by simp
qed

lemma flows_stateful_held:
  assumes "list_all named ts" "list_all (\<lambda>t. fst t \<in> set (names_held (remote w))) ts"
  shows "remote (snd (flows ts self (stateful render) w)) = remote w
       \<and> sent (snd (flows ts self (stateful render) w)) =
           sent w @ replicate (length ts) (listing_request self)"
  using assms
proof (induction ts arbitrary: w)
  case Nil
  then show ?case by simp
next
  case (Cons t ts)
  then have "named t" and r: "list_all named ts"
    and h: "fst t \<in> set (names_held (remote w))"
    and hs: "list_all (\<lambda>t. fst t \<in> set (names_held (remote w))) ts"
    by simp_all
  then have n: "subscript (snd t) ''name'' = Inr (JStr (fst t))"
    by (simp add: named_def)
  let ?c = "check_then_create (fst t) (snd t) self (stateful render) w"
  have c: "?c = (Inr (), snd ?c)"
    using check_then_create_stateful(1)[OF n, of self render w] by (simp add: prod_eq_iff)
  have rem: "remote (snd ?c) = remote w"
    using check_then_create_stateful(2)[OF n, of self render w] h by (simp add: store_after_def)
  have snt: "sent (snd ?c) = sent w @ [listing_request self]"
    using check_then_create_stateful(3)[OF n, of self render w] h by simp
  have f: "flows (t # ts) self (stateful render) w = flows ts self (stateful render) (snd ?c)"
    by (subst flows.simps, subst c, simp only: and_then_Inr)
  from hs have "list_all (\<lambda>t. fst t \<in> set (names_held (remote (snd ?c)))) ts"
    by (simp only: rem)
  from Cons.IH[OF r this] show ?case
    unfolding f by (simp add: rem snt replicate_app_Cons_same)
qed

lemma names_held_store_after:
  "names_held (store_after n s) =
     names_held s @ (if n \<notin> set (names_held s) \<and> is_accept (next_verdict s) then [n] else [])"
  by (simp add: store_after_def names_held_def is_accept_def split: verdict.splits)

lemma store_after_count:
  assumes "count_list (names_held s) n \<le> b" "1 \<le> b"
  shows "count_list (names_held (store_after m s)) n \<le> b"
proof (cases "m \<notin> set (names_held s) \<and> is_accept (next_verdict s)")
  case True
  then have "count_list (names_held s) m = 0" by (simp add: count_list_0_iff)
  with assms True show ?thesis
    by (cases "m = n") (simp_all add: names_held_store_after)
next
  case False
  with assms show ?thesis by (simp add: names_held_store_after)
qed

lemma fold_store_after_count:
  "count_list (names_held s) n \<le> b \<Longrightarrow> 1 \<le> b \<Longrightarrow>
   count_list (names_held (fold store_after ms s)) n \<le> b"
  by (induction ms arbitrary: s) (simp_all add: store_after_count)

lemma fold_store_after_mono:
  "m \<in> set (names_held s) \<Longrightarrow> m \<in> set (names_held (fold store_after ms s))"
  by (induction ms arbitrary: s) (simp_all add: names_held_store_after)

lemma list_all_take_Suc: "list_all P (take (Suc k) xs) \<Longrightarrow> list_all P (take k xs)"
  by (induction xs arbitrary: k) (auto simp: take_Cons split: nat.splits)

lemma store_after_accepted:
  assumes "list_all is_accept (take (Suc k) (verdicts s))"
  shows "n \<in> set (names_held (store_after n s))"
    and "list_all is_accept (take k (verdicts (store_after n s)))"
proof -
  have a: "is_accept (next_verdict s)"
    using assms by (cases "verdicts s") (simp_all add: next_verdict_def is_accept_def)
  then show "n \<in> set (names_held (store_after n s))"
    by (simp add: names_held_store_after)
  have "list_all is_accept (take k (tl (verdicts s)))"
    using assms by (cases "verdicts s") simp_all
  moreover have "list_all is_accept (take k (verdicts s))"
    using assms by (rule list_all_take_Suc)
  moreover have "verdicts (store_after n s) = verdicts s \<or> verdicts (store_after n s) = tl (verdicts s)"
    by (simp add: store_after_def split: verdict.splits)
  ultimately show "list_all is_accept (take k (verdicts (store_after n s)))"
    by (elim disjE) simp_all
qed

lemma fold_store_after_accepted:
  "list_all is_accept (take (length ms) (verdicts s)) \<Longrightarrow>
   list_all (\<lambda>m. m \<in> set (names_held (fold store_after ms s))) ms"
proof (induction ms arbitrary: s)
  case Nil
  then show ?case by simp
next
  case (Cons m ms)
  then have a: "list_all is_accept (take (Suc (length ms)) (verdicts s))" by simp
  from store_after_accepted[OF a, of m] Cons.IH[of "store_after m s"]
  show ?case by (simp add: fold_store_after_mono)
qed

lemma flows_stateful_sent:
  assumes "list_all named ts"
  shows "sent (snd (flows ts self (stateful render) w)) =
           sent w @ stateful_requests self ts (remote w)"
  using assms
proof (induction ts arbitrary: w)
  case Nil
  then show ?case by simp
next
  case (Cons t ts)
  then have "named t" and r: "list_all named ts"
    by simp_all
  then have n: "subscript (snd t) ''name'' = Inr (JStr (fst t))"
    by (simp add: named_def)
  let ?c = "check_then_create (fst t) (snd t) self (stateful render) w"
  have c: "?c = (Inr (), snd ?c)"
    using check_then_create_stateful(1)[OF n, of self render w] by (simp add: prod_eq_iff)
  have f: "flows (t # ts) self (stateful render) w = flows ts self (stateful render) (snd ?c)"
    by (subst flows.simps, subst c, simp only: and_then_Inr)
  from Cons.IH[OF r, of "snd ?c"] check_then_create_stateful(2,3)[OF n, of self render w]
  show ?case
    unfolding f by simp
qed

lemma templates_named: "list_all named templates"
  by (simp add: templates_def named_def workflow_name_member)

lemma templates_names: "map fst templates = template_names"
  by (simp add: templates_def template_names_def)

lemma and_then_returned: "fst r = Inr u \<Longrightarrow> and_then r f = f (snd r)"
  by (cases r) (simp add: and_then_def)

lemma setup_all_workflows_stateful:
  "setup_all_workflows self (stateful render) w =
     (Inr (), print_all footer (snd (flows templates self (stateful render) (print_all banner w))))"
proof -
  have "fst (flows templates self (stateful render) (print_all banner w)) = Inr ()"
    using flows_stateful[OF templates_named, of self render "print_all banner w"] by simp
  then show ?thesis
    unfolding setup_all_workflows_flows by (rule and_then_returned)
qed

lemma setup_all_workflows_stateful_remote:
  "remote (snd (setup_all_workflows self (stateful render) w)) =
     fold store_after template_names (remote w)"
  using flows_stateful[OF templates_named, of self render "print_all banner w"]
  by (simp add: setup_all_workflows_stateful print_all_eq templates_names)

lemma setup_all_workflows_stateful_sent:
  "sent (snd (setup_all_workflows self (stateful render) w)) =
     sent w @ stateful_requests self templates (remote w)"
  using flows_stateful_sent[OF templates_named, of self render "print_all banner w"]
  by (simp add: setup_all_workflows_stateful print_all_eq)

lemma setup_all_workflows_stateful_held:
  assumes "list_all (\<lambda>n. n \<in> set (names_held (remote w))) template_names"
  shows "remote (snd (setup_all_workflows self (stateful render) w)) = remote w"
    and "sent (snd (setup_all_workflows self (stateful render) w)) =
           sent w @ replicate 4 (listing_request self)"
proof -
  let ?w0 = "print_all banner w"
  have "list_all (\<lambda>t. fst t \<in> set (names_held (remote ?w0))) templates"
    using assms by (simp add: templates_def template_names_def print_all_eq)
  moreover have "length templates = 4"
    by (simp add: templates_def)
  ultimately show "remote (snd (setup_all_workflows self (stateful render) w)) = remote w"
    and "sent (snd (setup_all_workflows self (stateful render) w)) =
           sent w @ replicate 4 (listing_request self)"
    using flows_stateful_held[OF templates_named, of ?w0 self render]
    by (simp_all add: setup_all_workflows_stateful print_all_eq)
qed

lemma first_run_remote:
  "remote (snd (first_run render self s)) = fold store_after template_names s"
  by (simp add: first_run_def setup_all_workflows_stateful_remote start_def)

lemma second_run_remote:
  "remote (snd (second_run render self s)) =
     fold store_after template_names (fold store_after template_names s)"
  by (simp add: second_run_def setup_all_workflows_stateful_remote first_run_remote)

lemma distinct_count_le_1: "distinct xs = (\<forall>x. count_list xs x \<le> 1)"
proof (induction xs)
  case Nil
  then show ?case by simp
next
  case (Cons a xs)
  show ?case
  proof
    assume d: "distinct (a # xs)"
    then have "count_list xs a = 0" by (simp add: count_list_0_iff)
    moreover from d Cons have "\<forall>x. count_list xs x \<le> 1" by simp
    ultimately show "\<forall>x. count_list (a # xs) x \<le> 1" by simp
  next
    assume c: "\<forall>x. count_list (a # xs) x \<le> 1"
    from c[rule_format, of a] have "count_list xs a = 0" by simp
    then have "a \<notin> set xs" by (simp add: count_list_0_iff)
    moreover have "count_list xs x \<le> 1" for x
      using c[rule_format, of x] by (simp split: if_splits)
    ultimately show "distinct (a # xs)" using Cons by simp
  qed
qed

text \<open>
  Claim C1, amended. Two runs of \<^verbatim>\<open>setup_all_workflows\<close> in a row against a stateful service
  whose listing answers 200 on every call both return normally and create each workflow
  at most once: a name that was not held is held at most once afterwards, a name that
  was held gains no record, and names that were distinct stay distinct. When the service
  accepts every creation of the first run (the first four verdicts are acceptances), on
  the second run the existence check of every template returns \<^verbatim>\<open>True\<close>, the run issues
  the four listing GETs and no POST, and the service holds what it held after the first.
\<close>

theorem idempotent_setup:
  "fst (first_run render self s) = Inr () \<and> fst (second_run render self s) = Inr ()
   \<and> count_list (names_held (remote (snd (second_run render self s)))) n
        \<le> max 1 (count_list (names_held s) n)
   \<and> (distinct (names_held s) \<longrightarrow>
        distinct (names_held (remote (snd (second_run render self s)))))
   \<and> (list_all is_accept (take 4 (verdicts s)) \<longrightarrow>
        list_all (\<lambda>m. fst (workflow_exists self (stateful render) m
                          (snd (first_run render self s))) = Inr True) template_names
        \<and> sent (snd (second_run render self s)) =
            sent (snd (first_run render self s)) @ replicate 4 (listing_request self)
        \<and> remote (snd (second_run render self s)) = remote (snd (first_run render self s)))"
proof -
  have runs: "fst (first_run render self s) = Inr ()" "fst (second_run render self s) = Inr ()"
    by (simp_all add: first_run_def second_run_def setup_all_workflows_stateful)
  have count: "count_list (names_held (remote (snd (second_run render self s)))) m
        \<le> b" if "count_list (names_held s) m \<le> b" "1 \<le> b" for m b
    unfolding second_run_remote using that by (simp add: fold_store_after_count)
  have c1: "count_list (names_held (remote (snd (second_run render self s)))) n
        \<le> max 1 (count_list (names_held s) n)"
    by (rule count) simp_all
  have d: "distinct (names_held (remote (snd (second_run render self s))))"
    if "distinct (names_held s)"
  proof -
    from that have "count_list (names_held s) m \<le> 1" for m
      by (simp add: distinct_count_le_1)
    then have "count_list (names_held (remote (snd (second_run render self s)))) m \<le> 1" for m
      by (rule count) simp
    then show ?thesis by (simp add: distinct_count_le_1)
  qed
  have acc: "list_all (\<lambda>m. fst (workflow_exists self (stateful render) m
                          (snd (first_run render self s))) = Inr True) template_names
        \<and> sent (snd (second_run render self s)) =
            sent (snd (first_run render self s)) @ replicate 4 (listing_request self)
        \<and> remote (snd (second_run render self s)) = remote (snd (first_run render self s))"
    if a: "list_all is_accept (take 4 (verdicts s))"
  proof -
    have "length template_names = 4" by (simp add: template_names_def)
    with a have "list_all is_accept (take (length template_names) (verdicts s))" by simp
    from fold_store_after_accepted[OF this]
    have h: "list_all (\<lambda>m. m \<in> set (names_held (remote (snd (first_run render self s)))))
        template_names"
      by (simp add: first_run_remote)
    then have "list_all (\<lambda>m. fst (workflow_exists self (stateful render) m
                          (snd (first_run render self s))) = Inr True) template_names"
      by (simp add: workflow_exists_stateful)
    with setup_all_workflows_stateful_held[OF h, of self render] show ?thesis
      by (simp add: second_run_def)
  qed
  from runs c1 d acc show ?thesis by blast
qed

theorem idempotent_setup_witness:
  "fst (second_run blank default_setup empty_store) = Inr ()
   \<and> names_held (remote (snd (second_run blank default_setup empty_store))) = template_names
   \<and> distinct (names_held (remote (snd (second_run blank default_setup empty_store))))
   \<and> sent (snd (second_run blank default_setup empty_store)) =
       sent (snd (first_run blank default_setup empty_store))
       @ replicate 4 (listing_request default_setup)"
proof -
  have h: "distinct (names_held empty_store)" "list_all is_accept (take 4 (verdicts empty_store))"
    by (simp_all add: empty_store_def names_held_def)
  have "names_held (remote (snd (second_run blank default_setup empty_store))) = template_names"
    by (simp add: second_run_remote template_names_def empty_store_def store_after_def
        names_held_def next_verdict_def)
  with idempotent_setup[of blank default_setup empty_store] h show ?thesis
    by blast
qed

theorem idempotent_setup_counterexample:
  "fst (workflow_exists default_setup (stateful blank) ''SHAAD_Send_Notification''
          (snd (first_run blank default_setup busy_store))) = Inr False
   \<and> sent (snd (second_run blank default_setup busy_store)) =
       sent (snd (first_run blank default_setup busy_store))
       @ [listing_request default_setup,
          creation_request default_setup (send_notification_workflow ''SHAAD_Send_Notification''),
          listing_request default_setup, listing_request default_setup,
          listing_request default_setup]"
proof -
  have r: "remote (snd (first_run blank default_setup busy_store)) =
      \<lparr>held = [(JInt 1, ''SHAAD_Web_Search''), (JInt 2, ''SHAAD_Home_Control''),
               (JInt 3, ''SHAAD_Schedule_Task'')],
       verdicts = []\<rparr>"
    by (simp add: first_run_remote template_names_def busy_store_def store_after_def
        names_held_def next_verdict_def)
  show ?thesis
    by (simp add: workflow_exists_stateful second_run_def setup_all_workflows_stateful_sent r
        templates_def store_after_def names_held_def next_verdict_def)
qed

end
